theory Spec2Isabelle
  imports Complex_Main "HOL-Library.Multiset"
begin

section \<open>Values and errors\<close>

text \<open>
  The dashboard of \<^verbatim>\<open>src/app/app_dash.py\<close> is a thin layer over pandas, numpy, scipy
  and plotly. The functions of the source are embedded as they are written; every
  library call they make is a definition of its own, named as in the source and stating
  the part of the library's behaviour the source relies on. Floating-point numbers are
  idealised as rationals, and the numeric values of the fitted spline are left
  symbolic (see \<open>yseq\<close>).
\<close>

text \<open>The exceptions the modelled code can raise.\<close>

datatype py_error = FileNotFoundError | IndexError | KeyError | ValueError | IndexingError

text \<open>
  A cell of a pandas column. \<open>Num r\<close> is content that pandas reads as the number
  \<open>r\<close>, \<open>Str s\<close> is text that does not read as a number, \<open>NaN\<close> is the missing
  value.
\<close>

datatype cell = Num rat | Str string | NaN

text \<open>\<^verbatim>\<open>pd.notna\<close>, elementwise.\<close>

definition notna :: "cell \<Rightarrow> bool" where
  "notna c = (c \<noteq> NaN)"

text \<open>
  \<^verbatim>\<open>x[valid_data]\<close>: selection by a boolean mask. A mask that does not fit the
  series is refused.
\<close>

definition boolean_index :: "'a list \<Rightarrow> bool list \<Rightarrow> py_error + 'a list" where
  "boolean_index xs msk =
     (if length msk \<noteq> length xs then Inl IndexingError
      else Inr (map fst (filter snd (zip xs msk))))"

section \<open>The smoothing helper\<close>

text \<open>
  The object returned by \<^verbatim>\<open>make_interp_spline\<close>: the interpolation sites and
  values it was fitted through.
\<close>

datatype bspline = BSpline "(rat \<times> rat) list"

text \<open>
  The x sequence \<^verbatim>\<open>smooth_line\<close> returns is either the caller's numeric epoch
  series or the result of \<^verbatim>\<open>pd.to_datetime\<close> on the resampled abscissas (the
  nanosecond values handed to it are kept); the raw marker traces of the chart carry
  the parsed date column. The y sequence is either a series of cells or the array
  \<^verbatim>\<open>spline(x_smooth)\<close>, recorded as the spline and the abscissas it was evaluated at.
\<close>

record timestamp =
  year :: nat
  month :: nat
  day :: nat

datatype xseq =
    EpochSeries "int list"
  | DatetimeIndex "rat list"
  | DateSeries "timestamp option list"

datatype yseq =
    ValueSeries "cell list"
  | SplineValues bspline "rat list"

fun xseq_len :: "xseq \<Rightarrow> nat" where
  "xseq_len (EpochSeries xs) = length xs"
| "xseq_len (DatetimeIndex xs) = length xs"
| "xseq_len (DateSeries xs) = length xs"

fun yseq_len :: "yseq \<Rightarrow> nat" where
  "yseq_len (ValueSeries ys) = length ys"
| "yseq_len (SplineValues s xs) = length xs"

text \<open>Conversion of a cell to a float, as scipy does on its arguments.\<close>

fun as_float :: "cell \<Rightarrow> rat option" where
  "as_float (Num r) = Some r"
| "as_float (Str s) = None"
| "as_float NaN = None"

text \<open>
  \<^verbatim>\<open>scipy.interpolate.make_interp_spline(x, y)\<close> with its defaults (degree
  \<open>k = 3\<close>, not-a-knot boundary conditions). It raises \<^verbatim>\<open>ValueError\<close> when the
  arguments have different sizes, when \<open>y\<close> does not convert to finite floats, when
  \<open>x\<close> has duplicates or is not increasing, and when there are fewer than \<open>k + 1 = 4\<close>
  sites (the knot vector then asks for boundary derivatives that were not given).
\<close>

definition make_interp_spline :: "int list \<Rightarrow> cell list \<Rightarrow> py_error + bspline" where
  "make_interp_spline x y =
     (case those (map as_float y) of
        None \<Rightarrow> Inl ValueError
      | Some ys \<Rightarrow>
          if length x \<noteq> length ys then Inl ValueError
          else if \<not> sorted_wrt (<) x then Inl ValueError
          else if length x < 4 then Inl ValueError
          else Inr (BSpline (zip (map rat_of_int x) ys)))"

text \<open>
  \<^verbatim>\<open>np.linspace(start, stop, num)\<close>: \<open>num\<close> evenly spaced samples, the last one
  set to \<open>stop\<close> when there are at least two; one sample is \<open>start\<close> alone; a
  negative count raises \<^verbatim>\<open>ValueError\<close>.
\<close>

definition linspace :: "rat \<Rightarrow> rat \<Rightarrow> int \<Rightarrow> py_error + rat list" where
  "linspace start stop num =
     (if num < 0 then Inl ValueError
      else if num = 0 then Inr []
      else if num = 1 then Inr [start]
      else Inr (map (\<lambda>i. start + rat_of_nat i * ((stop - start) / rat_of_int (num - 1)))
                  [0..<nat num - 1] @ [stop]))"

text \<open>\<^verbatim>\<open>smooth_line(x, y, points=300)\<close>, lines 13 to 21.\<close>

definition smooth_line :: "int list \<Rightarrow> cell list \<Rightarrow> int \<Rightarrow> py_error + (xseq \<times> yseq)" where
  "smooth_line x y points =
     (let valid_data = map notna y in
      case boolean_index x valid_data of
        Inl e \<Rightarrow> Inl e
      | Inr x' \<Rightarrow>
          (case boolean_index y valid_data of
             Inl e \<Rightarrow> Inl e
           | Inr y' \<Rightarrow>
               if length x' \<ge> 3 then
                 (case make_interp_spline x' y' of
                    Inl e \<Rightarrow> Inl e
                  | Inr spline \<Rightarrow>
                      (case linspace (rat_of_int (Min (set x'))) (rat_of_int (Max (set x'))) points of
                         Inl e \<Rightarrow> Inl e
                       | Inr x_smooth \<Rightarrow>
                           Inr (DatetimeIndex x_smooth, SplineValues spline x_smooth)))
               else Inr (EpochSeries x', ValueSeries y')))"

definition default_points :: int where
  "default_points = 300"

text \<open>
  The pairs \<^verbatim>\<open>smooth_line\<close> keeps, stated on pairs: those whose y is not null, in
  the order of the input.
\<close>

definition valid_pairs :: "int list \<Rightarrow> cell list \<Rightarrow> (int \<times> cell) list" where
  "valid_pairs x y = filter (\<lambda>p. snd p \<noteq> NaN) (zip x y)"

text \<open>
  The value \<^verbatim>\<open>pd.to_numeric\<close> gives a missing date: pandas' \<^verbatim>\<open>iNaT\<close>, the least
  64-bit integer.
\<close>

definition iNaT :: int where
  "iNaT = - (2 ^ 63)"

section \<open>Dates\<close>

text \<open>
  The column \<^verbatim>\<open>release_date\<close> after \<^verbatim>\<open>pd.to_datetime\<close> holds calendar dates at
  midnight (\<open>timestamp\<close>) or \<^verbatim>\<open>NaT\<close> (\<open>None\<close>). Strings are ASCII.
\<close>

definition month_abbr :: "string list" where
  "month_abbr = [''Jan'', ''Feb'', ''Mar'', ''Apr'', ''May'', ''Jun'',
                 ''Jul'', ''Aug'', ''Sep'', ''Oct'', ''Nov'', ''Dec'']"

definition is_upper :: "char \<Rightarrow> bool" where
  "is_upper c = (65 \<le> (of_char c :: nat) \<and> (of_char c :: nat) \<le> 90)"

definition is_lower :: "char \<Rightarrow> bool" where
  "is_lower c = (97 \<le> (of_char c :: nat) \<and> (of_char c :: nat) \<le> 122)"

definition to_lower :: "char \<Rightarrow> char" where
  "to_lower c = (if is_upper c then char_of (of_char c + 32 :: nat) else c)"

definition to_upper :: "char \<Rightarrow> char" where
  "to_upper c = (if is_lower c then char_of (of_char c - 32 :: nat) else c)"

definition is_digit :: "char \<Rightarrow> bool" where
  "is_digit c = (48 \<le> (of_char c :: nat) \<and> (of_char c :: nat) \<le> 57)"

definition digit_val :: "char \<Rightarrow> nat" where
  "digit_val c = of_char c - 48"

definition digit_char :: "nat \<Rightarrow> char" where
  "digit_char n = char_of (48 + n)"

text \<open>The characters the regular expression class \<^verbatim>\<open>\s\<close> accepts, within ASCII.\<close>

definition is_space :: "char \<Rightarrow> bool" where
  "is_space c = ((of_char c :: nat) \<in> {9, 10, 11, 12, 13, 28, 29, 30, 31, 32})"

text \<open>
  \<^verbatim>\<open>%b\<close>: an abbreviated month name, letter case ignored. The result is the month
  number and the rest of the string.
\<close>

fun find_index_from :: "nat \<Rightarrow> 'a \<Rightarrow> 'a list \<Rightarrow> nat option" where
  "find_index_from n a [] = None"
| "find_index_from n a (b # bs) = (if a = b then Some n else find_index_from (Suc n) a bs)"

definition match_month :: "string \<Rightarrow> (nat \<times> string) option" where
  "match_month s =
     (if length s < 3 then None
      else case find_index_from 1 (map to_lower (take 3 s)) (map (map to_lower) month_abbr) of
             None \<Rightarrow> None
           | Some m \<Rightarrow> Some (m, drop 3 s))"

text \<open>White space of the format: \<^verbatim>\<open>\s+\<close>, one or more.\<close>

definition match_spaces :: "string \<Rightarrow> string option" where
  "match_spaces s =
     (case s of
        [] \<Rightarrow> None
      | c # cs \<Rightarrow> if is_space c then Some (dropWhile is_space cs) else None)"

text \<open>
  \<^verbatim>\<open>%d\<close>: \<^verbatim>\<open>3[0-1]|[1-2]\d|0[1-9]|[1-9]| [1-9]\<close>, that is two digits from 01 to 31,
  or one digit from 1 to 9 (a leading blank is taken by the white space before it).
\<close>

definition match_day :: "string \<Rightarrow> (nat \<times> string) option" where
  "match_day s =
     (case s of
        [] \<Rightarrow> None
      | a # r \<Rightarrow>
          if \<not> is_digit a then None
          else (case r of
                  b # r' \<Rightarrow>
                    if is_digit b \<and> 1 \<le> 10 * digit_val a + digit_val b
                       \<and> 10 * digit_val a + digit_val b \<le> 31
                    then Some (10 * digit_val a + digit_val b, r')
                    else if 1 \<le> digit_val a then Some (digit_val a, r) else None
                | [] \<Rightarrow> if 1 \<le> digit_val a then Some (digit_val a, r) else None))"

text \<open>\<^verbatim>\<open>%Y\<close>: exactly four digits.\<close>

definition match_year :: "string \<Rightarrow> (nat \<times> string) option" where
  "match_year s =
     (case s of
        a # b # c # d # r \<Rightarrow>
          if is_digit a \<and> is_digit b \<and> is_digit c \<and> is_digit d
          then Some (1000 * digit_val a + 100 * digit_val b + 10 * digit_val c + digit_val d, r)
          else None
      | _ \<Rightarrow> None)"

text \<open>
  Matching a whole string against the format \<^verbatim>\<open>"%b %d, %Y"\<close>: nothing may remain
  after the year.
\<close>

definition strptime :: "string \<Rightarrow> timestamp option" where
  "strptime s =
     (case match_month s of
        None \<Rightarrow> None
      | Some (m, r1) \<Rightarrow>
     (case match_spaces r1 of
        None \<Rightarrow> None
      | Some r2 \<Rightarrow>
     (case match_day r2 of
        None \<Rightarrow> None
      | Some (d, r3) \<Rightarrow>
     (case r3 of
        [] \<Rightarrow> None
      | c # r4 \<Rightarrow>
          if c \<noteq> CHR '','' then None
          else
     (case match_spaces r4 of
        None \<Rightarrow> None
      | Some r5 \<Rightarrow>
     (case match_year r5 of
        None \<Rightarrow> None
      | Some (y, r6) \<Rightarrow>
          if r6 = [] then Some \<lparr>year = y, month = m, day = d\<rparr> else None))))))"

definition is_leap :: "nat \<Rightarrow> bool" where
  "is_leap y = (y mod 4 = 0 \<and> (y mod 100 \<noteq> 0 \<or> y mod 400 = 0))"

definition days_in_month :: "nat \<Rightarrow> nat \<Rightarrow> nat" where
  "days_in_month y m =
     (if m = 2 then (if is_leap y then 29 else 28)
      else if m \<in> {4, 6, 9, 11} then 30 else 31)"

definition valid_date :: "timestamp \<Rightarrow> bool" where
  "valid_date t = (1 \<le> year t \<and> 1 \<le> month t \<and> month t \<le> 12
                   \<and> 1 \<le> day t \<and> day t \<le> days_in_month (year t) (month t))"

text \<open>
  The integer behind a date: nanoseconds since 1970-01-01, from the proleptic Gregorian
  day number (day 1 is 0001-01-01, and 1970-01-01 is day 719163).
\<close>

definition days_before_year :: "nat \<Rightarrow> nat" where
  "days_before_year y = 365 * (y - 1) + (y - 1) div 4 - (y - 1) div 100 + (y - 1) div 400"

definition days_before_month :: "nat \<Rightarrow> nat \<Rightarrow> nat" where
  "days_before_month y m = sum_list (map (days_in_month y) [1..<m])"

definition toordinal :: "timestamp \<Rightarrow> nat" where
  "toordinal t = days_before_year (year t) + days_before_month (year t) (month t) + day t"

definition datetime_value :: "timestamp \<Rightarrow> int" where
  "datetime_value t = (int (toordinal t) - 719163) * 86400000000000"

text \<open>A date is representable when its nanosecond value is a 64-bit integer other than \<open>iNaT\<close>.\<close>

definition in_bounds :: "timestamp \<Rightarrow> bool" where
  "in_bounds t = (iNaT < datetime_value t \<and> datetime_value t < 2 ^ 63)"

text \<open>
  \<^verbatim>\<open>pd.to_datetime(..., format="%b %d, %Y", errors='coerce')\<close>, elementwise: whatever
  does not match the format, is no calendar date or is out of bounds becomes \<^verbatim>\<open>NaT\<close>.
\<close>

fun to_datetime_coerce :: "cell \<Rightarrow> timestamp option" where
  "to_datetime_coerce (Str s) =
     (case strptime s of
        None \<Rightarrow> None
      | Some t \<Rightarrow> if valid_date t \<and> in_bounds t then Some t else None)"
| "to_datetime_coerce (Num r) = None"
| "to_datetime_coerce NaN = None"

text \<open>\<^verbatim>\<open>strftime('%b %d, %Y')\<close>; through \<^verbatim>\<open>.dt\<close>, a missing date gives a missing value.\<close>

definition strftime :: "timestamp \<Rightarrow> string" where
  "strftime t =
     month_abbr ! (month t - 1) @ '' ''
     @ [digit_char (day t div 10), digit_char (day t mod 10)] @ '', ''
     @ [digit_char (year t div 1000), digit_char (year t div 100 mod 10),
        digit_char (year t div 10 mod 10), digit_char (year t mod 10)]"

fun dt_strftime :: "timestamp option \<Rightarrow> cell" where
  "dt_strftime None = NaN"
| "dt_strftime (Some t) = Str (strftime t)"

text \<open>\<^verbatim>\<open>pd.to_numeric\<close> on a date column, elementwise.\<close>

fun to_numeric_date :: "timestamp option \<Rightarrow> int" where
  "to_numeric_date None = iNaT"
| "to_numeric_date (Some t) = datetime_value t"

text \<open>\<^verbatim>\<open>pd.to_numeric(..., errors='coerce')\<close>, elementwise.\<close>

fun to_numeric_coerce :: "cell \<Rightarrow> cell" where
  "to_numeric_coerce (Num r) = Num r"
| "to_numeric_coerce (Str s) = NaN"
| "to_numeric_coerce NaN = NaN"

section \<open>The table of movies\<close>

text \<open>
  One row of the table \<^verbatim>\<open>pd.read_csv\<close> returns, with the columns the source
  reads. The type parameter is the content of \<^verbatim>\<open>release_date\<close>: a cell as read
  from the file, a date once the column has been converted.
\<close>

record 'd movie =
  title :: cell
  release_date :: 'd
  production_budget :: cell
  box_office :: cell
  profit :: cell
  roi_percentage :: cell
  performance :: cell
  poster_url :: cell
  backdrop_url :: cell
  runtime :: cell
  tagline :: cell
  trailer :: cell
  sentiment_score :: cell
  comment :: cell

text \<open>The table after line 75, with the added column.\<close>

record 'd frame_row = "'d movie" +
  formatted_release_date :: cell

text \<open>Assignment to the column \<^verbatim>\<open>release_date\<close>, which changes its type.\<close>

definition set_release_date :: "'a movie \<Rightarrow> 'b \<Rightarrow> 'b movie" where
  "set_release_date r v =
     \<lparr>title = title r, release_date = v, production_budget = production_budget r,
      box_office = box_office r, profit = profit r, roi_percentage = roi_percentage r,
      performance = performance r, poster_url = poster_url r, backdrop_url = backdrop_url r,
      runtime = runtime r, tagline = tagline r, trailer = trailer r,
      sentiment_score = sentiment_score r, comment = comment r\<rparr>"

text \<open>
  \<^verbatim>\<open>df.sort_values(by='release_date')\<close>: ascending, missing dates last in their
  original order. Rows with equal dates are kept here in their original order; pandas'
  default sort does not promise that.
\<close>

definition sort_values :: "timestamp option movie list \<Rightarrow> timestamp option movie list" where
  "sort_values df =
     sort_key (\<lambda>r. to_numeric_date (release_date r)) (filter (\<lambda>r. release_date r \<noteq> None) df)
     @ filter (\<lambda>r. release_date r = None) df"

text \<open>Lines 68 to 75 of \<^verbatim>\<open>update_graph\<close>, on the table read from the file.\<close>

definition load_frame :: "cell movie list \<Rightarrow> timestamp option frame_row list" where
  "load_frame csv =
     (let df = map (\<lambda>r. set_release_date r (to_datetime_coerce (release_date r))) csv;
          df = sort_values df;
          df = map (\<lambda>r. r\<lparr>sentiment_score := to_numeric_coerce (sentiment_score r)\<rparr>) df
      in map (\<lambda>r. movie.extend r
                  (frame_row.fields (dt_strftime (release_date r)))) df)"

section \<open>The chart\<close>

record trace =
  trace_x :: xseq
  trace_y :: yseq
  trace_mode :: string
  trace_name :: string
  trace_color :: string
  trace_hoverinfo :: "string option"
  trace_showlegend :: "bool option"
  trace_legendgroup :: string
  trace_customdata :: "cell list list option"

record figure =
  fig_data :: "trace list"
  fig_title :: string
  fig_xaxis_title :: string
  fig_yaxis_title :: string
  fig_hovermode :: string

text \<open>
  The rows of \<^verbatim>\<open>df[['title', 'formatted_release_date', ..., 'comment']].values\<close>,
  lines 104 to 106 and 130 to 132.
\<close>

definition customdata_row :: "'d frame_row \<Rightarrow> cell list" where
  "customdata_row r =
     [title r, formatted_release_date r, production_budget r, box_office r, profit r,
      roi_percentage r, performance r, poster_url r, backdrop_url r, runtime r,
      tagline r, trailer r, sentiment_score r, comment r]"

text \<open>\<^verbatim>\<open>update_graph\<close>, lines 63 to 144, on the table read from the selected file.\<close>

definition update_graph :: "cell movie list \<Rightarrow> py_error + figure" where
  "update_graph csv =
     (let df = load_frame csv;
          x_numeric = map (\<lambda>r. to_numeric_date (release_date r)) df
      in case smooth_line x_numeric (map performance df) default_points of
           Inl e \<Rightarrow> Inl e
         | Inr (x_smooth_perf, y_smooth_perf) \<Rightarrow>
      (case smooth_line x_numeric (map sentiment_score df) default_points of
           Inl e \<Rightarrow> Inl e
         | Inr (x_smooth_sent, y_smooth_sent) \<Rightarrow>
             Inr \<lparr>fig_data =
                   [\<lparr>trace_x = x_smooth_perf, trace_y = y_smooth_perf,
                     trace_mode = ''lines'', trace_name = ''Performance'',
                     trace_color = ''#e63946'', trace_hoverinfo = Some ''skip'',
                     trace_showlegend = Some False, trace_legendgroup = ''Performance'',
                     trace_customdata = None\<rparr>,
                    \<lparr>trace_x = DateSeries (map release_date df),
                     trace_y = ValueSeries (map performance df),
                     trace_mode = ''markers'', trace_name = ''Performance'',
                     trace_color = ''#e63946'', trace_hoverinfo = None,
                     trace_showlegend = None, trace_legendgroup = ''Performance'',
                     trace_customdata = Some (map customdata_row df)\<rparr>,
                    \<lparr>trace_x = x_smooth_sent, trace_y = y_smooth_sent,
                     trace_mode = ''lines'', trace_name = ''Sentiment'',
                     trace_color = ''#457b9d'', trace_hoverinfo = Some ''skip'',
                     trace_showlegend = Some False, trace_legendgroup = ''Sentiment'',
                     trace_customdata = None\<rparr>,
                    \<lparr>trace_x = DateSeries (map release_date df),
                     trace_y = ValueSeries (map sentiment_score df),
                     trace_mode = ''markers'', trace_name = ''Sentiment'',
                     trace_color = ''#457b9d'', trace_hoverinfo = None,
                     trace_showlegend = None, trace_legendgroup = ''Sentiment'',
                     trace_customdata = Some (map customdata_row df)\<rparr>],
                  fig_title = ''Performance and Sentiment Over Time'',
                  fig_xaxis_title = ''Release Date'',
                  fig_yaxis_title = ''Performance/Sentiment'',
                  fig_hovermode = ''x unified''\<rparr>))"

section \<open>The detail panel\<close>

text \<open>
  The hover event: the list under \<^verbatim>\<open>'points'\<close>, each point with the
  \<^verbatim>\<open>customdata\<close> of the marker it refers to, when its trace has any.
\<close>

record point =
  curveNumber :: nat
  pointNumber :: nat
  point_customdata :: "cell list option"

record hover =
  hover_points :: "point list"

text \<open>
  A formatted string is kept as its pieces: literal text and the values placed in
  it, so that how Python prints a number is not modelled.
\<close>

datatype piece = Lit string | Val cell

datatype media = Img "piece list" | Iframe "piece list"

record panel =
  heading :: "piece list"
  release_line :: "piece list"
  image_container :: "media list"
  performance_value :: "piece list"
  sentiment_value :: "piece list"
  budget_line :: "piece list"
  box_office_line :: "piece list"
  profit_line :: "piece list"
  roi_line :: "piece list"
  comment_line :: "piece list"

text \<open>The middle dot of line 211, in UTF-8, between blanks.\<close>

definition middot :: string where
  "middot = [CHR '' '', CHR 0xC2, CHR 0xB7, CHR '' '']"

text \<open>\<^verbatim>\<open>display_hover_data\<close>, lines 154 to 253.\<close>

definition display_hover_data :: "hover option \<Rightarrow> string \<Rightarrow> py_error + panel" where
  "display_hover_data hover_data selected_csv =
     (case hover_data of
        None \<Rightarrow>
          Inr \<lparr>heading = [Lit ''Hover Over the Graph For More Information''],
               release_line = [Lit ''...''],
               image_container = [Img [Lit ''https://placehold.co/2000x3000?text=...''],
                                  Img [Lit ''https://placehold.co/410x280?text=...'']],
               performance_value = [Lit ''-.--''],
               sentiment_value = [Lit ''-.--''],
               budget_line = [Lit ''Production Budget: ''],
               box_office_line = [Lit ''Box Office: ''],
               profit_line = [Lit ''Profit: ''],
               roi_line = [Lit ''ROI Percentage: ''],
               comment_line = [Lit ''Comment: '']\<rparr>
      | Some h \<Rightarrow>
          (case hover_points h of
             [] \<Rightarrow> Inl IndexError
           | p # ps \<Rightarrow>
               (case point_customdata p of
                  None \<Rightarrow> Inl KeyError
                | Some point_data \<Rightarrow>
                    if length point_data < 14 then Inl IndexError
                    else
                      (let poster = point_data ! 7;
                           backdrop = point_data ! 8;
                           trailer_src = point_data ! 11
                       in Inr \<lparr>heading = [Val (point_data ! 0)],
                               release_line = [Val (point_data ! 1), Lit middot,
                                               Val (point_data ! 9), Lit ('' min'' @ middot),
                                               Val (point_data ! 10)],
                               image_container = [Img [Val poster], Iframe [Val trailer_src]],
                               performance_value = [Val (point_data ! 6)],
                               sentiment_value = [Val (point_data ! 12)],
                               budget_line = [Lit ''Production Budget: '', Val (point_data ! 2)],
                               box_office_line = [Lit ''Box Office: '', Val (point_data ! 3)],
                               profit_line = [Lit ''Profit: '', Val (point_data ! 4)],
                               roi_line = [Lit ''ROI Percentage: '', Val (point_data ! 5)],
                               comment_line = [Lit ''Comment: '', Val (point_data ! 13)]\<rparr>))))"

section \<open>Start-up\<close>

text \<open>The directory \<^verbatim>\<open>csvs\<close> as the process finds it.\<close>

datatype directory = Missing | Listing "string list"

fun listdir :: "directory \<Rightarrow> py_error + string list" where
  "listdir Missing = Inl FileNotFoundError"
| "listdir (Listing files) = Inr files"

definition endswith :: "string \<Rightarrow> string \<Rightarrow> bool" where
  "endswith s suffix =
     (length suffix \<le> length s \<and> drop (length s - length suffix) s = suffix)"

text \<open>\<^verbatim>\<open>s.replace(old, new)\<close>: every occurrence, left to right, without overlap.\<close>

function replace :: "string \<Rightarrow> string \<Rightarrow> string \<Rightarrow> string" where
  "replace s old new =
     (if old = [] then new @ concat (map (\<lambda>c. c # new) s)
      else if s = [] then []
      else if take (length old) s = old then new @ replace (drop (length old) s) old new
      else hd s # replace (tl s) old new)"
  by pat_completeness auto
termination
  by (relation "measure (\<lambda>(s, old, new). length s)") auto

declare replace.simps [simp del]

text \<open>\<^verbatim>\<open>os.path.join\<close> of the folder and a file name of its listing.\<close>

definition path_join :: "string \<Rightarrow> string \<Rightarrow> string" where
  "path_join folder file = folder @ ''/'' @ file"

text \<open>Assignment to a key of a dict: a known key keeps its place and takes the new value.\<close>

fun dict_set :: "('k \<times> 'v) list \<Rightarrow> 'k \<Rightarrow> 'v \<Rightarrow> ('k \<times> 'v) list" where
  "dict_set [] k v = [(k, v)]"
| "dict_set (p # ps) k v = (if fst p = k then (k, v) # ps else p # dict_set ps k v)"

text \<open>\<^verbatim>\<open>str.title\<close> on ASCII: a letter after a letter is lowered, any other letter is raised.\<close>

fun title_from :: "bool \<Rightarrow> string \<Rightarrow> string" where
  "title_from prev [] = []"
| "title_from prev (c # cs) =
     (if is_upper c \<or> is_lower c
      then (if prev then to_lower c else to_upper c) # title_from True cs
      else c # title_from False cs)"

definition str_title :: "string \<Rightarrow> string" where
  "str_title s = title_from False s"

definition csv_folder :: string where
  "csv_folder = ''csvs''"

text \<open>Lines 27 to 33: the matching files and the dict of franchises.\<close>

definition franchise_csvs :: "string list \<Rightarrow> string list" where
  "franchise_csvs files = filter (\<lambda>file. endswith file ''_movies.csv'') files"

definition franchises :: "string list \<Rightarrow> (string \<times> string) list" where
  "franchises files =
     foldl (\<lambda>d csv. dict_set d (replace (replace csv ''_movies.csv'' []) ''_'' '' '')
                               (path_join csv_folder csv))
           [] (franchise_csvs files)"

text \<open>The dropdown of the layout, lines 43 to 48.\<close>

record dropdown =
  dd_id :: string
  dd_options :: "(string \<times> string) list"
  dd_value :: string
  dd_placeholder :: string

definition app_layout :: "(string \<times> string) list \<Rightarrow> py_error + dropdown" where
  "app_layout fr =
     (case map snd fr of
        [] \<Rightarrow> Inl IndexError
      | v # vs \<Rightarrow>
          Inr \<lparr>dd_id = ''franchise-dropdown'',
               dd_options = map (\<lambda>(name, path). (str_title name, path)) fr,
               dd_value = v,
               dd_placeholder = ''Select a Movie Franchise''\<rparr>)"

text \<open>The module up to the layout: listing, dict, layout.\<close>

definition startup :: "directory \<Rightarrow> py_error + dropdown" where
  "startup dir =
     (case listdir dir of
        Inl e \<Rightarrow> Inl e
      | Inr files \<Rightarrow> app_layout (franchises files))"

section \<open>Notions used in the statements\<close>

text \<open>
  A string in the layout \<^verbatim>\<open>Mon DD, YYYY\<close>: an English month abbreviation with a
  capital initial, one blank, two digits, a comma, one blank, four digits.
\<close>

definition layout_Mon_DD_YYYY :: "string \<Rightarrow> bool" where
  "layout_Mon_DD_YYYY s =
     (length s = 12 \<and> take 3 s \<in> set month_abbr \<and> s ! 3 = CHR '' ''
      \<and> is_digit (s ! 4) \<and> is_digit (s ! 5) \<and> s ! 6 = CHR '','' \<and> s ! 7 = CHR '' ''
      \<and> is_digit (s ! 8) \<and> is_digit (s ! 9) \<and> is_digit (s ! 10) \<and> is_digit (s ! 11))"

text \<open>What lines 68, 72 and 75 make of one row of the file.\<close>

definition loaded_row :: "cell movie \<Rightarrow> timestamp option frame_row" where
  "loaded_row r =
     movie.extend
       ((set_release_date r (to_datetime_coerce (release_date r)))
          \<lparr>sentiment_score := to_numeric_coerce (sentiment_score r)\<rparr>)
       (frame_row.fields (dt_strftime (to_datetime_coerce (release_date r))))"

text \<open>A row of a file for the examples: title, release date, performance, sentiment.\<close>

definition sample_movie :: "string \<Rightarrow> string \<Rightarrow> rat \<Rightarrow> rat \<Rightarrow> cell movie" where
  "sample_movie t d p s =
     \<lparr>title = Str t, release_date = Str d, production_budget = Num 1000000,
      box_office = Num 3000000, profit = Num 2000000, roi_percentage = Num 200,
      performance = Num p, poster_url = Str ''poster.jpg'', backdrop_url = Str ''backdrop.jpg'',
      runtime = Num 120, tagline = Str ''tagline'', trailer = Str ''trailer.mp4'',
      sentiment_score = Num s, comment = Str ''comment''\<rparr>"

text \<open>Two files of five rows: dates pairwise distinct, and two rows of one day.\<close>

definition five_movies :: "cell movie list" where
  "five_movies =
     [sample_movie ''Return of the Jedi'' ''May 25, 1983'' 7 8,
      sample_movie ''Star Wars'' ''May 25, 1977'' 9 9,
      sample_movie ''The Empire Strikes Back'' ''May 21, 1980'' 8 9,
      sample_movie ''The Phantom Menace'' ''May 19, 1999'' 5 4,
      sample_movie ''Attack of the Clones'' ''May 16, 2002'' 4 5]"

definition five_movies_same_day :: "cell movie list" where
  "five_movies_same_day =
     [sample_movie ''Return of the Jedi'' ''May 25, 1983'' 7 8,
      sample_movie ''Star Wars'' ''May 25, 1977'' 9 9,
      sample_movie ''The Empire Strikes Back'' ''May 21, 1980'' 8 9,
      sample_movie ''The Phantom Menace'' ''May 19, 1999'' 5 4,
      sample_movie ''Double Bill'' ''May 25, 1977'' 4 5]"

text \<open>A file of two rows, the first with a date that does not parse.\<close>

definition two_movies :: "cell movie list" where
  "two_movies =
     [sample_movie ''A'' ''unknown'' 1 2, sample_movie ''B'' ''May 25, 1977'' 3 4]"

text \<open>Line 68 and lines 72 to 75 of \<^verbatim>\<open>update_graph\<close>, on one row.\<close>

definition parse_row :: "cell movie \<Rightarrow> timestamp option movie" where
  "parse_row r = set_release_date r (to_datetime_coerce (release_date r))"

definition finish_row :: "timestamp option movie \<Rightarrow> timestamp option frame_row" where
  "finish_row r = movie.extend (r\<lparr>sentiment_score := to_numeric_coerce (sentiment_score r)\<rparr>)
                    (frame_row.fields (dt_strftime (release_date r)))"

section \<open>Properties of the smoothing helper\<close>

lemma mask_select_fst:
  "length xs = length ys \<Longrightarrow>
   map fst (filter snd (zip xs (map P ys))) = map fst (filter (\<lambda>p. P (snd p)) (zip xs ys))"
  by (induction xs ys rule: list_induct2) auto

lemma mask_select_snd:
  "map fst (filter snd (zip ys (map P ys))) = filter P ys"
  by (induction ys) auto

lemma filter_snd_zip:
  "length xs = length ys \<Longrightarrow>
   map snd (filter (\<lambda>p. P (snd p)) (zip xs ys)) = filter P ys"
  by (induction xs ys rule: list_induct2) auto

lemma boolean_index_x:
  "length x = length y \<Longrightarrow>
   boolean_index x (map notna y) = Inr (map fst (valid_pairs x y))"
  by (simp add: boolean_index_def valid_pairs_def mask_select_fst notna_def)

lemma boolean_index_y:
  "length x = length y \<Longrightarrow>
   boolean_index y (map notna y) = Inr (map snd (valid_pairs x y))"
  using filter_snd_zip [of x y notna]
  by (simp add: boolean_index_def valid_pairs_def mask_select_snd notna_def)

lemma smooth_line_unfold:
  assumes "length x = length y"
  shows "smooth_line x y points =
     (if 3 \<le> length (valid_pairs x y) then
        (case make_interp_spline (map fst (valid_pairs x y)) (map snd (valid_pairs x y)) of
           Inl e \<Rightarrow> Inl e
         | Inr spline \<Rightarrow>
             (case linspace (rat_of_int (Min (set (map fst (valid_pairs x y)))))
                            (rat_of_int (Max (set (map fst (valid_pairs x y))))) points of
                Inl e \<Rightarrow> Inl e
              | Inr x_smooth \<Rightarrow> Inr (DatetimeIndex x_smooth, SplineValues spline x_smooth)))
      else Inr (EpochSeries (map fst (valid_pairs x y)), ValueSeries (map snd (valid_pairs x y))))"
  using assms by (simp add: smooth_line_def boolean_index_x boolean_index_y)

lemma smooth_line_mismatch:
  "length x \<noteq> length y \<Longrightarrow> smooth_line x y points = Inl IndexingError"
  by (simp add: smooth_line_def boolean_index_def)

text \<open>
  C2. When fewer than three pairs have a non-null y, \<^verbatim>\<open>smooth_line\<close> returns the
  pairs with a non-null y and nothing else: their x values as the numeric series, their
  y values as they were, in the order of the input, whatever the point count.
\<close>

theorem smooth_line_fallback:
  assumes "length x = length y"
      and "length (filter (\<lambda>p. snd p \<noteq> NaN) (zip x y)) < 3"
  shows "smooth_line x y points =
           Inr (EpochSeries (map fst (filter (\<lambda>p. snd p \<noteq> NaN) (zip x y))),
                ValueSeries (map snd (filter (\<lambda>p. snd p \<noteq> NaN) (zip x y))))"
  using assms by (simp add: smooth_line_unfold valid_pairs_def)

theorem smooth_line_fallback_witness:
  "smooth_line [10, 20, 30] [Num 1, NaN, Num 2] 300
     = Inr (EpochSeries [10, 30], ValueSeries [Num 1, Num 2])"
  using smooth_line_fallback [of "[10, 20, 30]" "[Num 1, NaN, Num 2]" 300] by simp

lemma those_as_float:
  "\<forall>c\<in>set ys. \<exists>r. c = Num r \<Longrightarrow> \<exists>rs. those (map as_float ys) = Some rs \<and> length rs = length ys"
  by (induction ys) auto

lemma make_interp_spline_ok:
  assumes "length xs = length ys" "\<forall>c\<in>set ys. \<exists>r. c = Num r" "sorted_wrt (<) xs" "4 \<le> length xs"
  shows "\<exists>rs. make_interp_spline xs ys = Inr (BSpline (zip (map rat_of_int xs) rs)) \<and> those (map as_float ys) = Some rs \<and> length rs = length ys"
  using those_as_float[OF assms(2)] assms by (auto simp: make_interp_spline_def)

lemma linspace_ok:
  assumes "2 \<le> n" "a \<le> b"
  shows "\<exists>xs. linspace a b n = Inr xs \<and> length xs = nat n \<and> hd xs = a \<and> last xs = b
           \<and> (\<forall>v\<in>set xs. a \<le> v \<and> v \<le> b)"
proof -
  let ?step = "(b - a) / rat_of_int (n - 1)"
  let ?xs = "map (\<lambda>i. a + rat_of_nat i * ?step) [0..<nat n - 1] @ [b]"
  have eq: "linspace a b n = Inr ?xs" using assms by (simp add: linspace_def)
  have len: "length ?xs = nat n" using assms by simp
  have pos: "0 < nat n - 1" using assms by simp
  have hd: "hd ?xs = a" using pos by (simp add: hd_append hd_map upt_conv_Cons)
  have bnd: "a \<le> a + rat_of_nat i * ?step \<and> a + rat_of_nat i * ?step \<le> b" if "i < nat n - 1" for i
  proof -
    have n1: "0 < rat_of_int (n - 1)" using assms by simp
    have i1: "rat_of_nat i \<le> rat_of_int (n - 1)" using that by (simp add: of_nat_le_iff[symmetric] del: of_nat_le_iff)
    have s0: "0 \<le> ?step" using assms n1 by simp
    have "rat_of_nat i * ?step \<le> rat_of_int (n - 1) * ?step"
      using i1 s0 by (rule mult_right_mono)
    also have "\<dots> = b - a" using n1 by simp
    finally have "rat_of_nat i * ?step \<le> b - a" .
    moreover have "0 \<le> rat_of_nat i * ?step" using s0 by (intro mult_nonneg_nonneg) simp_all
    ultimately show ?thesis by simp
  qed
  have "\<forall>v\<in>set ?xs. a \<le> v \<and> v \<le> b" using bnd assms by auto
  moreover have "last ?xs = b" by simp
  ultimately show ?thesis using eq len hd by blast
qed

lemma valid_pairs_length: "length x = length y \<Longrightarrow> length (map fst (valid_pairs x y)) = length (map snd (valid_pairs x y))"
  by simp

lemma valid_pairs_not_text:
  assumes "\<forall>c\<in>set y. \<forall>s. c \<noteq> Str s"
  shows "\<forall>c\<in>set (map snd (valid_pairs x y)). \<exists>r. c = Num r"
proof
  fix c assume "c \<in> set (map snd (valid_pairs x y))"
  then obtain a where "(a, c) \<in> set (zip x y)" and "c \<noteq> NaN"
    by (auto simp: valid_pairs_def)
  then have "c \<in> set y" by (meson set_zip_rightD)
  with assms \<open>c \<noteq> NaN\<close> show "\<exists>r. c = Num r" by (cases c) auto
qed


text \<open>
  With exactly three valid pairs the guard of line 16 lets the fit run, and the fit
  refuses three sites: the call raises instead of falling back.
\<close>

lemma smooth_line_three_valid_pairs:
  assumes "length x = length y" and "length (valid_pairs x y) = 3"
  shows "smooth_line x y points = Inl ValueError"
  using assms
  by (simp add: smooth_line_unfold make_interp_spline_def split: option.splits)

text \<open>The curve of the smoothing branch.\<close>

lemma smooth_line_curve:
  assumes "length x = length y"
      and "\<forall>c\<in>set y. \<forall>s. c \<noteq> Str s"
      and "4 \<le> length (valid_pairs x y)"
      and "sorted_wrt (<) (map fst (valid_pairs x y))"
      and "2 \<le> points"
  shows "\<exists>xs s. smooth_line x y points = Inr (DatetimeIndex xs, SplineValues s xs)
           \<and> length xs = nat points
           \<and> hd xs = rat_of_int (Min (set (map fst (valid_pairs x y))))
           \<and> last xs = rat_of_int (Max (set (map fst (valid_pairs x y))))
           \<and> (\<forall>v\<in>set xs. rat_of_int (Min (set (map fst (valid_pairs x y)))) \<le> v
                          \<and> v \<le> rat_of_int (Max (set (map fst (valid_pairs x y)))))"
proof -
  let ?x' = "map fst (valid_pairs x y)" and ?y' = "map snd (valid_pairs x y)"
  have ne: "set ?x' \<noteq> {}" using assms(3) by auto
  obtain rs where fit: "make_interp_spline ?x' ?y' = Inr (BSpline (zip (map rat_of_int ?x') rs))"
    using make_interp_spline_ok [of ?x' ?y'] valid_pairs_not_text [OF assms(2)] assms(3,4)
    by auto
  have "Min (set ?x') \<le> Max (set ?x')" using ne by simp
  then have le: "rat_of_int (Min (set ?x')) \<le> rat_of_int (Max (set ?x'))" by simp
  from linspace_ok [OF assms(5) le]
  obtain xs where xs: "linspace (rat_of_int (Min (set ?x'))) (rat_of_int (Max (set ?x'))) points = Inr xs"
      "length xs = nat points" "hd xs = rat_of_int (Min (set ?x'))" "last xs = rat_of_int (Max (set ?x'))"
      "\<forall>v\<in>set xs. rat_of_int (Min (set ?x')) \<le> v \<and> v \<le> rat_of_int (Max (set ?x'))"
    by blast
  have "smooth_line x y points = Inr (DatetimeIndex xs, SplineValues (BSpline (zip (map rat_of_int ?x') rs)) xs)"
    using assms(1,3) fit xs(1) by (simp add: smooth_line_unfold)
  with xs show ?thesis by blast
qed




text \<open>
  C10. The two branches of \<^verbatim>\<open>smooth_line\<close> return x in different representations:
  with fewer than three valid pairs the numeric epoch series of the caller, with three or
  more a date/time index.
\<close>

theorem smooth_line_x_representation:
  assumes "length x = length y" and "smooth_line x y points = Inr (xo, yo)"
  shows "(length (valid_pairs x y) < 3 \<longrightarrow> xo = EpochSeries (map fst (valid_pairs x y)))
       \<and> (3 \<le> length (valid_pairs x y) \<longrightarrow> (\<exists>ds. xo = DatetimeIndex ds))"
  using assms
  by (auto simp: smooth_line_unfold split: sum.splits if_splits)

theorem smooth_line_x_representation_witness:
  "smooth_line [1, 2, 3, 4] [Num 1, NaN, NaN, Num 4] 2 = Inr (EpochSeries [1, 4], ValueSeries [Num 1, Num 4])
   \<and> smooth_line [1, 2, 3, 4] [Num 1, Num 2, Num 3, Num 4] 2
       = Inr (DatetimeIndex [1, 4], SplineValues (BSpline [(1, 1), (2, 2), (3, 3), (4, 4)]) [1, 4])
   \<and> EpochSeries [1, 4] = EpochSeries (map fst (valid_pairs [1, 2, 3, 4] [Num 1, NaN, NaN, Num 4]))
   \<and> (\<exists>ds. DatetimeIndex [1, 4] = DatetimeIndex ds)"
proof -
  have a: "smooth_line [1, 2, 3, 4] [Num 1, NaN, NaN, Num 4] 2 = Inr (EpochSeries [1, 4], ValueSeries [Num 1, Num 4])"
    by (simp add: smooth_line_def boolean_index_def notna_def)
  have b: "smooth_line [1, 2, 3, 4] [Num 1, Num 2, Num 3, Num 4] 2
       = Inr (DatetimeIndex [1, 4], SplineValues (BSpline [(1, 1), (2, 2), (3, 3), (4, 4)]) [1, 4])"
    by (simp add: smooth_line_def boolean_index_def notna_def make_interp_spline_def linspace_def)
  show ?thesis
  proof -
    have c: "EpochSeries [1, 4] = EpochSeries (map fst (valid_pairs [1, 2, 3, 4] [Num 1, NaN, NaN, Num 4]))"
      using smooth_line_x_representation [OF _ a] by (simp add: valid_pairs_def)
    have d: "\<exists>ds. DatetimeIndex [1, 4] = DatetimeIndex ds"
      using smooth_line_x_representation [OF _ b] by (simp add: valid_pairs_def)
    from a b c d show ?thesis by (intro conjI)
  qed
qed




section \<open>Properties of dates\<close>







lemma lower_months:
  "map (map to_lower) month_abbr =
     [''jan'', ''feb'', ''mar'', ''apr'', ''may'', ''jun'',
      ''jul'', ''aug'', ''sep'', ''oct'', ''nov'', ''dec'']"
  by (simp add: month_abbr_def to_lower_def is_upper_def char_of_def bit_0)

lemmas match_month_eval =
  match_month_def lower_months to_lower_def is_upper_def char_of_def bit_0









lemma dvd_100_4: "Suc k mod 100 = 0 \<Longrightarrow> Suc k mod 4 = 0"
proof -
  assume "Suc k mod 100 = 0"
  then have "100 dvd Suc k" by (simp add: mod_eq_0_iff_dvd)
  moreover have "(4::nat) dvd 100" by simp
  ultimately have "4 dvd Suc k" using dvd_trans by blast
  then show ?thesis by (simp add: mod_eq_0_iff_dvd)
qed

lemma dvd_400_100: "Suc k mod 400 = 0 \<Longrightarrow> Suc k mod 100 = 0"
proof -
  assume "Suc k mod 400 = 0"
  then have "400 dvd Suc k" by (simp add: mod_eq_0_iff_dvd)
  moreover have "(100::nat) dvd 400" by simp
  ultimately have "100 dvd Suc k" using dvd_trans by blast
  then show ?thesis by (simp add: mod_eq_0_iff_dvd)
qed

lemma not_dvd_4_100: "Suc k mod 4 \<noteq> 0 \<Longrightarrow> Suc k mod 100 \<noteq> 0"
  by (erule contrapos_nn) (rule dvd_100_4)

lemma not_dvd_100_400: "Suc k mod 100 \<noteq> 0 \<Longrightarrow> Suc k mod 400 \<noteq> 0"
  by (erule contrapos_nn) (rule dvd_400_100)

lemma days_before_year_Suc:
  assumes "1 \<le> y"
  shows "days_before_year (Suc y) = days_before_year y + (if is_leap y then 366 else 365)"
proof -
  obtain k where k: "y = Suc k" using assms by (cases y) auto
  define a b c where "a = k div 4" and "b = k div 100" and "c = k div 400"
  have d4: "Suc k div 4 = a + (if Suc k mod 4 = 0 then 1 else 0)"
    by (simp add: div_Suc a_def)
  have d100: "Suc k div 100 = b + (if Suc k mod 100 = 0 then 1 else 0)"
    by (simp add: div_Suc b_def)
  have d400: "Suc k div 400 = c + (if Suc k mod 400 = 0 then 1 else 0)"
    by (simp add: div_Suc c_def)
  have le: "b \<le> a" unfolding a_def b_def by (rule div_le_mono2) simp_all
  have old: "days_before_year (Suc k) = 365 * k + a - b + c"
    by (simp add: days_before_year_def a_def b_def c_def)
  have new: "days_before_year (Suc (Suc k)) = 365 * Suc k + Suc k div 4 - Suc k div 100 + Suc k div 400"
    by (simp add: days_before_year_def)
  consider "Suc k mod 400 = 0" | "Suc k mod 400 \<noteq> 0" "Suc k mod 100 = 0"
    | "Suc k mod 100 \<noteq> 0" "Suc k mod 4 = 0" | "Suc k mod 4 \<noteq> 0"
    by auto
  then show ?thesis
  proof cases
    case 1
    have h: "Suc k mod 100 = 0" by (rule dvd_400_100 [OF 1])
    have "Suc k mod 4 = 0" by (rule dvd_100_4 [OF h])
    with 1 h le show ?thesis unfolding k new old d4 d100 d400 is_leap_def by simp
  next
    case 2
    have "Suc k mod 4 = 0" by (rule dvd_100_4 [OF 2(2)])
    with 2 le show ?thesis unfolding k new old d4 d100 d400 is_leap_def by simp
  next
    case 3
    have "Suc k mod 400 \<noteq> 0" by (rule not_dvd_100_400 [OF 3(1)])
    with 3 le show ?thesis unfolding k new old d4 d100 d400 is_leap_def by simp
  next
    case 4
    have h: "Suc k mod 100 \<noteq> 0" by (rule not_dvd_4_100 [OF 4])
    have "Suc k mod 400 \<noteq> 0" by (rule not_dvd_100_400 [OF h])
    with 4 h le show ?thesis unfolding k new old d4 d100 d400 is_leap_def by simp
  qed
qed

lemma year_length: "days_before_month y 13 = (if is_leap y then 366 else 365)"
  by (simp add: days_before_month_def days_in_month_def upt_rec)

lemma days_before_month_Suc:
  "1 \<le> m \<Longrightarrow> days_before_month y (Suc m) = days_before_month y m + days_in_month y m"
  by (simp add: days_before_month_def)

lemma days_before_month_mono:
  assumes "m \<le> n"
  shows "days_before_month y m \<le> days_before_month y n"
proof -
  have "[1..<n] = [1..<m] @ [m..<n]" if "1 \<le> m"
    using that assms by (metis le_add_diff_inverse upt_add_eq_append)
  then show ?thesis
    using assms by (cases "1 \<le> m") (auto simp: days_before_month_def)
qed

lemma days_before_year_mono:
  assumes "1 \<le> y" and "y < z"
  shows "days_before_year y + days_before_month y 13 \<le> days_before_year z"
  using assms(2,1)
proof (induction z)
  case 0
  then show ?case by simp
next
  case (Suc z)
  show ?case
  proof (cases "y = z")
    case True
    then show ?thesis using Suc.prems by (simp add: days_before_year_Suc year_length)
  next
    case False
    then have "y < z" using Suc.prems by simp
    then have "days_before_year y + days_before_month y 13 \<le> days_before_year z"
      using Suc by simp
    moreover have "days_before_year z \<le> days_before_year (Suc z)"
      using \<open>y < z\<close> Suc.prems by (simp add: days_before_year_Suc)
    ultimately show ?thesis by simp
  qed
qed
lemma day_of_year_le:
  assumes "valid_date t"
  shows "days_before_month (year t) (month t) + day t \<le> days_before_month (year t) (Suc (month t))"
    and "days_before_month (year t) (Suc (month t)) \<le> days_before_month (year t) 13"
proof -
  from assms have m: "1 \<le> month t" "month t \<le> 12"
    and d: "day t \<le> days_in_month (year t) (month t)"
    by (simp_all add: valid_date_def)
  show "days_before_month (year t) (month t) + day t \<le> days_before_month (year t) (Suc (month t))"
    using m(1) d by (simp add: days_before_month_Suc)
  show "days_before_month (year t) (Suc (month t)) \<le> days_before_month (year t) 13"
    using m(2) by (intro days_before_month_mono) simp
qed

lemma toordinal_less:
  assumes "valid_date a" and "valid_date b"
      and "year a < year b
           \<or> (year a = year b \<and> (month a < month b
                \<or> (month a = month b \<and> day a < day b)))"
  shows "toordinal a < toordinal b"
proof -
  from assms(2) have db: "1 \<le> day b" by (simp add: valid_date_def)
  from assms(1) have ya: "1 \<le> year a" by (simp add: valid_date_def)
  note doy = day_of_year_le [OF assms(1)]
  consider "year a < year b" | "year a = year b" "month a < month b"
    | "year a = year b" "month a = month b" "day a < day b"
    using assms(3) by blast
  then show ?thesis
  proof cases
    case 1
    have "toordinal a \<le> days_before_year (year a) + days_before_month (year a) 13"
      using doy by (simp add: toordinal_def)
    also have "\<dots> \<le> days_before_year (year b)"
      using ya 1 by (rule days_before_year_mono)
    also have "\<dots> < toordinal b" using db by (simp add: toordinal_def)
    finally show ?thesis .
  next
    case 2
    have "days_before_month (year a) (Suc (month a)) \<le> days_before_month (year a) (month b)"
      using 2(2) by (intro days_before_month_mono) simp
    then have "toordinal a \<le> days_before_year (year a) + days_before_month (year a) (month b)"
      using doy(1) by (simp add: toordinal_def)
    also have "\<dots> < toordinal b" using db 2(1) by (simp add: toordinal_def)
    finally show ?thesis .
  next
    case 3
    then show ?thesis by (simp add: toordinal_def)
  qed
qed

lemma toordinal_inj:
  assumes "valid_date a" and "valid_date b" and "toordinal a = toordinal b"
  shows "a = b"
proof (rule ccontr)
  assume "a \<noteq> b"
  then have "year a \<noteq> year b \<or> month a \<noteq> month b \<or> day a \<noteq> day b"
    by (auto intro: timestamp.equality)
  then have "(year a < year b
               \<or> (year a = year b \<and> (month a < month b
                    \<or> (month a = month b \<and> day a < day b))))
           \<or> (year b < year a
               \<or> (year b = year a \<and> (month b < month a
                    \<or> (month b = month a \<and> day b < day a))))"
    by auto
  then have "toordinal a < toordinal b \<or> toordinal b < toordinal a"
    using toordinal_less [OF assms(1,2)] toordinal_less [OF assms(2,1)] by blast
  with assms(3) show False by simp
qed

lemma datetime_value_inj:
  assumes "valid_date a" and "valid_date b" and "datetime_value a = datetime_value b"
  shows "a = b"
  using assms by (auto simp: datetime_value_def intro: toordinal_inj)

section \<open>Properties of the loaded table\<close>

lemma load_frame_eq: "load_frame csv = map finish_row (sort_values (map parse_row csv))"
  by (simp add: load_frame_def Let_def parse_row_def [abs_def] finish_row_def [abs_def] comp_def)

lemma finish_parse: "finish_row (parse_row r) = loaded_row r"
  by (simp add: finish_row_def parse_row_def loaded_row_def set_release_date_def)

lemma finish_row_fields:
  "release_date (finish_row r) = release_date r"
  "title (finish_row r) = title r"
  "performance (finish_row r) = performance r"
  "sentiment_score (finish_row r) = to_numeric_coerce (sentiment_score r)"
  "formatted_release_date (finish_row r) = dt_strftime (release_date r)"
  by (simp_all add: finish_row_def movie.defs frame_row.defs)

lemma parse_row_fields:
  "release_date (parse_row r) = to_datetime_coerce (release_date r)"
  "title (parse_row r) = title r"
  "performance (parse_row r) = performance r"
  "sentiment_score (parse_row r) = sentiment_score r"
  by (simp_all add: parse_row_def set_release_date_def)

lemma mset_sort_values: "mset (sort_values df) = mset df"
  by (simp add: sort_values_def)

lemma set_sort_values: "set (sort_values df) = set df"
  by (metis mset_sort_values set_mset_mset)

lemma length_sort_values: "length (sort_values df) = length df"
  by (metis mset_sort_values size_mset)

lemma mset_load_frame: "mset (load_frame csv) = mset (map loaded_row csv)"
proof -
  have "mset (load_frame csv) = image_mset finish_row (mset (sort_values (map parse_row csv)))"
    by (simp add: load_frame_eq)
  also have "\<dots> = image_mset finish_row (image_mset parse_row (mset csv))"
    by (simp add: mset_sort_values)
  also have "\<dots> = mset (map loaded_row csv)"
    by (simp add: multiset.map_comp comp_def finish_parse)
  finally show ?thesis .
qed

lemma set_load_frame: "set (load_frame csv) = loaded_row ` set csv"
  by (metis mset_load_frame set_mset_mset set_map)

lemma length_load_frame: "length (load_frame csv) = length csv"
  by (metis mset_load_frame size_mset length_map)

lemma loaded_row_fields:
  "release_date (loaded_row r) = to_datetime_coerce (release_date r)"
  "title (loaded_row r) = title r"
  "performance (loaded_row r) = performance r"
  "sentiment_score (loaded_row r) = to_numeric_coerce (sentiment_score r)"
  "formatted_release_date (loaded_row r) = dt_strftime (to_datetime_coerce (release_date r))"
  by (simp_all add: finish_parse [symmetric] finish_row_fields parse_row_fields)

lemma map_Some_the:
  "\<forall>x\<in>set xs. f x \<noteq> None \<Longrightarrow> map f xs = map Some (map (\<lambda>x. the (f x)) xs)"
  by (induction xs) auto

lemma map_key_the:
  "\<forall>x\<in>set xs. f x \<noteq> None \<Longrightarrow>
   map (\<lambda>r. to_numeric_date (f r)) xs = map datetime_value (map (\<lambda>x. the (f x)) xs)"
  by (induction xs) auto

lemma map_filter_None:
  "map f (filter (\<lambda>r. f r = None) xs) = replicate (length (filter (\<lambda>r. f r = None) xs)) None"
  by (induction xs) auto

text \<open>The date column of the sorted table: the dates in ascending order, then the missing ones.\<close>

lemma dates_sort_values:
  "\<exists>ds. map release_date (sort_values df)
           = map Some ds @ replicate (length (filter (\<lambda>r. release_date r = None) df)) None
        \<and> sorted (map datetime_value ds)
        \<and> mset (map Some ds) = mset (filter (\<lambda>d. d \<noteq> None) (map release_date df))"
proof -
  define srt where "srt = sort_key (\<lambda>r. to_numeric_date (release_date r))
                             (filter (\<lambda>r. release_date r \<noteq> None) df)"
  define ds where "ds = map (\<lambda>r. the (release_date r)) srt"
  have some: "\<forall>r\<in>set srt. release_date r \<noteq> None" by (simp add: srt_def)
  have a: "map release_date srt = map Some ds"
    unfolding ds_def using some by (rule map_Some_the)
  have "map (\<lambda>r. to_numeric_date (release_date r)) srt = map datetime_value ds"
    unfolding ds_def using some by (rule map_key_the)
  moreover have "sorted (map (\<lambda>r. to_numeric_date (release_date r)) srt)"
    unfolding srt_def by (rule sorted_sort_key)
  ultimately have c: "sorted (map datetime_value ds)" by simp
  have "mset (map Some ds) = image_mset release_date (mset srt)" using a by (metis mset_map)
  also have "\<dots> = image_mset release_date (mset (filter (\<lambda>r. release_date r \<noteq> None) df))"
    by (simp add: srt_def)
  also have "\<dots> = mset (map release_date (filter (\<lambda>r. release_date r \<noteq> None) df))"
    by simp
  also have "\<dots> = mset (filter (\<lambda>d. d \<noteq> None) (map release_date df))"
    by (simp add: filter_map comp_def)
  finally have d: "mset (map Some ds) = mset (filter (\<lambda>d. d \<noteq> None) (map release_date df))" .
  have "map release_date (sort_values df)
          = map release_date srt @ map release_date (filter (\<lambda>r. release_date r = None) df)"
    by (simp add: sort_values_def srt_def)
  also have "\<dots> = map Some ds @ replicate (length (filter (\<lambda>r. release_date r = None) df)) None"
    by (simp only: a map_filter_None)
  finally show ?thesis using c d by blast
qed

lemma dates_load_frame:
  "\<exists>ds. map release_date (load_frame csv)
           = map Some ds
             @ replicate (length (filter (\<lambda>r. to_datetime_coerce (release_date r) = None) csv)) None
        \<and> sorted (map datetime_value ds)
        \<and> mset (map Some ds)
            = mset (filter (\<lambda>d. d \<noteq> None) (map (\<lambda>r. to_datetime_coerce (release_date r)) csv))"
proof -
  have a: "map release_date (load_frame csv) = map release_date (sort_values (map parse_row csv))"
    by (simp add: load_frame_eq comp_def finish_row_fields)
  have b: "length (filter (\<lambda>r. release_date r = None) (map parse_row csv))
             = length (filter (\<lambda>r. to_datetime_coerce (release_date r) = None) csv)"
    by (simp add: filter_map comp_def parse_row_fields)
  have c: "map release_date (map parse_row csv) = map (\<lambda>r. to_datetime_coerce (release_date r)) csv"
    by (simp add: comp_def parse_row_fields)
  from dates_sort_values [of "map parse_row csv"] show ?thesis
    unfolding a b c .
qed

lemma update_graph_traces:
  assumes "update_graph csv = Inr fig"
  shows "length (fig_data fig) = 4"
    and "smooth_line (map (\<lambda>r. to_numeric_date (release_date r)) (load_frame csv))
           (map performance (load_frame csv)) default_points
         = Inr (trace_x (fig_data fig ! 0), trace_y (fig_data fig ! 0))"
    and "trace_x (fig_data fig ! 1) = DateSeries (map release_date (load_frame csv))"
    and "trace_y (fig_data fig ! 1) = ValueSeries (map performance (load_frame csv))"
    and "trace_customdata (fig_data fig ! 1) = Some (map customdata_row (load_frame csv))"
    and "smooth_line (map (\<lambda>r. to_numeric_date (release_date r)) (load_frame csv))
           (map sentiment_score (load_frame csv)) default_points
         = Inr (trace_x (fig_data fig ! 2), trace_y (fig_data fig ! 2))"
    and "trace_x (fig_data fig ! 3) = DateSeries (map release_date (load_frame csv))"
    and "trace_y (fig_data fig ! 3) = ValueSeries (map sentiment_score (load_frame csv))"
    and "trace_customdata (fig_data fig ! 3) = Some (map customdata_row (load_frame csv))"
  using assms
  by (auto simp: update_graph_def Let_def split: sum.splits prod.splits)

lemma update_graph_ok:
  assumes "smooth_line (map (\<lambda>r. to_numeric_date (release_date r)) (load_frame csv))
             (map performance (load_frame csv)) default_points = Inr (xp, yp)"
      and "smooth_line (map (\<lambda>r. to_numeric_date (release_date r)) (load_frame csv))
             (map sentiment_score (load_frame csv)) default_points = Inr (xs, ys)"
  shows "\<exists>fig. update_graph csv = Inr fig"
  using assms by (simp add: update_graph_def Let_def)

lemma update_graph_error:
  assumes "smooth_line (map (\<lambda>r. to_numeric_date (release_date r)) (load_frame csv))
             (map performance (load_frame csv)) default_points = Inl e"
  shows "update_graph csv = Inl e"
  using assms by (simp add: update_graph_def Let_def)

lemmas strptime_eval =
  strptime_def match_month_eval match_spaces_def match_day_def match_year_def
  is_space_def is_digit_def digit_val_def

lemmas date_eval =
  valid_date_def in_bounds_def days_in_month_def is_leap_def datetime_value_def
  toordinal_def days_before_year_def days_before_month_def iNaT_def upt_rec

lemma parse_1977: "to_datetime_coerce (Str ''May 25, 1977'') = Some \<lparr>year = 1977, month = 5, day = 25\<rparr>"
  by (simp add: strptime_eval date_eval)

lemma parse_1980: "to_datetime_coerce (Str ''May 21, 1980'') = Some \<lparr>year = 1980, month = 5, day = 21\<rparr>"
  by (simp add: strptime_eval date_eval)

lemma parse_1983: "to_datetime_coerce (Str ''May 25, 1983'') = Some \<lparr>year = 1983, month = 5, day = 25\<rparr>"
  by (simp add: strptime_eval date_eval)

lemma parse_1999: "to_datetime_coerce (Str ''May 19, 1999'') = Some \<lparr>year = 1999, month = 5, day = 19\<rparr>"
  by (simp add: strptime_eval date_eval)

lemma parse_2002: "to_datetime_coerce (Str ''May 16, 2002'') = Some \<lparr>year = 2002, month = 5, day = 16\<rparr>"
  by (simp add: strptime_eval date_eval)

lemma parse_unknown: "to_datetime_coerce (Str ''unknown'') = None"
  by (simp add: strptime_eval)

lemma parse_unpadded: "to_datetime_coerce (Str ''May 5, 1977'') = Some \<lparr>year = 1977, month = 5, day = 5\<rparr>"
  by (simp add: strptime_eval date_eval)

lemma value_1977: "datetime_value \<lparr>year = 1977, month = 5, day = 25\<rparr> = 233366400000000000"
  by (simp add: date_eval)

lemma value_1980: "datetime_value \<lparr>year = 1980, month = 5, day = 21\<rparr> = 327715200000000000"
  by (simp add: date_eval)

lemma value_1983: "datetime_value \<lparr>year = 1983, month = 5, day = 25\<rparr> = 422668800000000000"
  by (simp add: date_eval)

lemma value_1999: "datetime_value \<lparr>year = 1999, month = 5, day = 19\<rparr> = 927072000000000000"
  by (simp add: date_eval)

lemma value_2002: "datetime_value \<lparr>year = 2002, month = 5, day = 16\<rparr> = 1021507200000000000"
  by (simp add: date_eval)

lemmas sample_eval =
  parse_1977 parse_1980 parse_1983 parse_1999 parse_2002 parse_unknown
  value_1977 value_1980 value_1983 value_1999 value_2002

text \<open>
  C3, as the code has it. Loading drops no row: the table is the rows of the file, each
  converted, in another order; a row whose date does not parse stays in it with a missing
  date. The rows that have a date come in ascending order of it.
\<close>

theorem load_frame_keeps_and_sorts:
  "mset (load_frame csv) = mset (map loaded_row csv)
   \<and> length (filter (\<lambda>r. release_date r = None) (load_frame csv))
       = length (filter (\<lambda>r. to_datetime_coerce (release_date r) = None) csv)
   \<and> sorted (map to_numeric_date (filter (\<lambda>d. d \<noteq> None) (map release_date (load_frame csv))))"
proof -
  have m: "mset (load_frame csv) = mset (map loaded_row csv)" by (rule mset_load_frame)
  have "length (filter (\<lambda>r. release_date r = None) (load_frame csv))
          = size (filter_mset (\<lambda>r. release_date r = None) (mset (load_frame csv)))"
    by (metis mset_filter size_mset)
  also have "\<dots> = length (filter (\<lambda>r. release_date r = None) (map loaded_row csv))"
    unfolding m by (metis mset_filter size_mset)
  also have "\<dots> = length (filter (\<lambda>r. to_datetime_coerce (release_date r) = None) csv)"
    by (simp add: filter_map comp_def loaded_row_fields)
  finally have n: "length (filter (\<lambda>r. release_date r = None) (load_frame csv))
       = length (filter (\<lambda>r. to_datetime_coerce (release_date r) = None) csv)" .
  from dates_load_frame [of csv] obtain ds where
    ds: "map release_date (load_frame csv)
           = map Some ds
             @ replicate (length (filter (\<lambda>r. to_datetime_coerce (release_date r) = None) csv)) None"
    and srt: "sorted (map datetime_value ds)"
    by blast
  have "filter (\<lambda>d. d \<noteq> None) (map release_date (load_frame csv)) = map Some ds"
    unfolding ds by (simp add: filter_map comp_def)
  then have "map to_numeric_date (filter (\<lambda>d. d \<noteq> None) (map release_date (load_frame csv)))
               = map datetime_value ds"
    by (simp add: comp_def)
  with srt m n show ?thesis by simp
qed

text \<open>
  C3 as stated fails: a row whose date does not parse is still in the table, after the
  row that has a date.
\<close>

theorem load_frame_drops_counterexample:
  "map title (load_frame [sample_movie ''A'' ''unknown'' 1 2, sample_movie ''B'' ''May 25, 1977'' 3 4])
     = [Str ''B'', Str ''A'']
   \<and> map release_date (load_frame [sample_movie ''A'' ''unknown'' 1 2, sample_movie ''B'' ''May 25, 1977'' 3 4])
     = [Some \<lparr>year = 1977, month = 5, day = 25\<rparr>, None]"
  by (simp add: load_frame_eq parse_row_def set_release_date_def sort_values_def finish_row_def
        sample_movie_def sample_eval movie.defs frame_row.defs del: to_datetime_coerce.simps)



section \<open>Properties of the chart\<close>

lemma to_datetime_coerce_valid: "to_datetime_coerce c = Some t \<Longrightarrow> valid_date t"
  by (cases c) (auto split: option.splits if_splits)

lemma valid_pairs_all:
  assumes "length x = length y" and "\<forall>c\<in>set y. c \<noteq> NaN"
  shows "valid_pairs x y = zip x y"
proof -
  have "\<forall>p\<in>set (zip x y). snd p \<noteq> NaN"
    using assms(2) by (auto dest: set_zip_rightD)
  then show ?thesis by (simp add: valid_pairs_def)
qed

lemma smooth_line_short:
  assumes "length x = length y" and "length x < 3"
  shows "\<exists>xo yo. smooth_line x y points = Inr (xo, yo)"
proof -
  have "length (valid_pairs x y) \<le> length (zip x y)"
    unfolding valid_pairs_def by (rule length_filter_le)
  with assms have "length (valid_pairs x y) < 3" by simp
  with assms(1) show ?thesis by (simp add: smooth_line_unfold)
qed

lemma update_graph_short:
  assumes "length csv < 3"
  shows "\<exists>fig. update_graph csv = Inr fig"
proof -
  let ?x = "map (\<lambda>r. to_numeric_date (release_date r)) (load_frame csv)"
  have len: "length ?x < 3" using assms by (simp add: length_load_frame)
  obtain xp yp where "smooth_line ?x (map performance (load_frame csv)) default_points = Inr (xp, yp)"
    using smooth_line_short [of ?x "map performance (load_frame csv)" default_points] len by auto
  moreover obtain xs ys where "smooth_line ?x (map sentiment_score (load_frame csv)) default_points = Inr (xs, ys)"
    using smooth_line_short [of ?x "map sentiment_score (load_frame csv)" default_points] len by auto
  ultimately show ?thesis by (rule update_graph_ok)
qed

lemma x_numeric_strictly_increasing:
  assumes "\<forall>r\<in>set csv. to_datetime_coerce (release_date r) \<noteq> None"
      and "distinct (map (\<lambda>r. to_datetime_coerce (release_date r)) csv)"
  shows "sorted_wrt (<) (map (\<lambda>r. to_numeric_date (release_date r)) (load_frame csv))"
proof -
  let ?parsed = "map (\<lambda>r. to_datetime_coerce (release_date r)) csv"
  have none: "filter (\<lambda>r. to_datetime_coerce (release_date r) = None) csv = []"
    using assms(1) by (simp add: filter_empty_conv)
  have all: "filter (\<lambda>d. d \<noteq> None) ?parsed = ?parsed"
    using assms(1) by (simp add: filter_id_conv)
  from dates_load_frame [of csv] obtain ds where
    ds: "map release_date (load_frame csv) = map Some ds"
    and srt: "sorted (map datetime_value ds)"
    and ms: "mset (map Some ds) = mset ?parsed"
    unfolding none all by auto
  have "distinct (map Some ds)" using ms assms(2) by (metis mset_eq_imp_distinct_iff)
  then have dist: "distinct ds" by (simp add: distinct_map)
  have "set (map Some ds) = set ?parsed" using ms by (metis set_mset_mset)
  then have "\<forall>d\<in>set ds. \<exists>r\<in>set csv. to_datetime_coerce (release_date r) = Some d"
    by (auto simp: image_iff set_eq_iff) metis
  then have valid: "\<forall>d\<in>set ds. valid_date d" by (auto dest: to_datetime_coerce_valid)
  have "inj_on datetime_value (set ds)"
    using valid by (auto intro!: inj_onI datetime_value_inj)
  with dist have "distinct (map datetime_value ds)" by (simp add: distinct_map)
  with srt have "sorted_wrt (<) (map datetime_value ds)" by (simp add: strict_sorted_iff)
  moreover have "map (\<lambda>r. to_numeric_date (release_date r)) (load_frame csv)
                   = map to_numeric_date (map release_date (load_frame csv))"
    by (simp add: comp_def)
  ultimately show ?thesis unfolding ds by (simp add: comp_def)
qed

lemma smooth_line_column:
  assumes len: "length x = length col" and n: "4 \<le> length x"
      and inc: "sorted_wrt (<) x" and num: "\<forall>c\<in>set col. \<exists>v. c = Num v"
  shows "\<exists>xs s. smooth_line x col default_points = Inr (DatetimeIndex xs, SplineValues s xs)
           \<and> length xs = 300"
proof -
  have nn: "\<forall>c\<in>set col. c \<noteq> NaN" using num by auto
  have vp: "valid_pairs x col = zip x col" using len nn by (rule valid_pairs_all)
  have fst: "map fst (valid_pairs x col) = x" using len by (simp add: vp)
  have notext: "\<forall>c\<in>set col. \<forall>s. c \<noteq> Str s" using num by auto
  have four: "4 \<le> length (valid_pairs x col)" using len n by (simp add: vp)
  have "\<exists>xs s. smooth_line x col default_points = Inr (DatetimeIndex xs, SplineValues s xs)
           \<and> length xs = nat default_points"
    using smooth_line_curve [OF len notext four, of default_points] inc
    by (auto simp: fst default_points_def)
  then show ?thesis by (simp add: default_points_def)
qed

lemma update_graph_smooths:
  assumes "4 \<le> length csv"
      and "\<forall>r\<in>set csv. to_datetime_coerce (release_date r) \<noteq> None"
      and "distinct (map (\<lambda>r. to_datetime_coerce (release_date r)) csv)"
      and "\<forall>r\<in>set csv. \<exists>v. performance r = Num v"
      and "\<forall>r\<in>set csv. \<exists>v. sentiment_score r = Num v"
  shows "\<exists>fig. update_graph csv = Inr fig \<and> length (fig_data fig) = 4
           \<and> xseq_len (trace_x (fig_data fig ! 0)) = 300
           \<and> yseq_len (trace_y (fig_data fig ! 0)) = 300
           \<and> xseq_len (trace_x (fig_data fig ! 1)) = length csv
           \<and> yseq_len (trace_y (fig_data fig ! 1)) = length csv
           \<and> xseq_len (trace_x (fig_data fig ! 2)) = 300
           \<and> yseq_len (trace_y (fig_data fig ! 2)) = 300
           \<and> xseq_len (trace_x (fig_data fig ! 3)) = length csv
           \<and> yseq_len (trace_y (fig_data fig ! 3)) = length csv"
proof -
  let ?df = "load_frame csv"
  let ?x = "map (\<lambda>r. to_numeric_date (release_date r)) ?df"
  have inc: "sorted_wrt (<) ?x" using assms(2,3) by (rule x_numeric_strictly_increasing)
  have n: "4 \<le> length ?x" using assms(1) by (simp add: length_load_frame)
  have perf: "\<forall>c\<in>set (map performance ?df). \<exists>v. c = Num v"
    using assms(4) by (auto simp: set_load_frame loaded_row_fields)
  have sent: "\<forall>c\<in>set (map sentiment_score ?df). \<exists>v. c = Num v"
  proof
    fix c assume "c \<in> set (map sentiment_score ?df)"
    then obtain r where r: "r \<in> set csv" and c: "c = to_numeric_coerce (sentiment_score r)"
      by (auto simp: set_load_frame loaded_row_fields)
    from assms(5) r obtain v where "sentiment_score r = Num v" by blast
    with c show "\<exists>v. c = Num v" by simp
  qed
  from smooth_line_column [OF _ n inc perf] obtain xp sp where
    p: "smooth_line ?x (map performance ?df) default_points = Inr (DatetimeIndex xp, SplineValues sp xp)"
    and lp: "length xp = 300" by auto
  from smooth_line_column [OF _ n inc sent] obtain xs ss where
    s: "smooth_line ?x (map sentiment_score ?df) default_points = Inr (DatetimeIndex xs, SplineValues ss xs)"
    and ls: "length xs = 300" by auto
  from update_graph_ok [OF p s] obtain fig where fig: "update_graph csv = Inr fig" by blast
  note tr = update_graph_traces [OF fig]
  from tr(2) p have t0: "trace_x (fig_data fig ! 0) = DatetimeIndex xp"
      "trace_y (fig_data fig ! 0) = SplineValues sp xp" by simp_all
  from tr(6) s have t2: "trace_x (fig_data fig ! 2) = DatetimeIndex xs"
      "trace_y (fig_data fig ! 2) = SplineValues ss xs" by simp_all
  show ?thesis
    using fig tr(1,3,4,7,8) t0 t2 lp ls by (simp add: length_load_frame)
qed

text \<open>
  C7, as the code has it. Five rows whose dates all parse and are pairwise distinct, with
  numeric performance and sentiment, give a figure of four traces; the smoothed
  performance trace has 300 points and the raw performance trace has 5.
\<close>

theorem five_rows_chart:
  assumes "length csv = 5"
      and "\<forall>r\<in>set csv. to_datetime_coerce (release_date r) \<noteq> None"
      and "distinct (map (\<lambda>r. to_datetime_coerce (release_date r)) csv)"
      and "\<forall>r\<in>set csv. \<exists>v. performance r = Num v"
      and "\<forall>r\<in>set csv. \<exists>v. sentiment_score r = Num v"
  shows "\<exists>fig. update_graph csv = Inr fig \<and> length (fig_data fig) = 4
           \<and> xseq_len (trace_x (fig_data fig ! 0)) = 300
           \<and> yseq_len (trace_y (fig_data fig ! 0)) = 300
           \<and> xseq_len (trace_x (fig_data fig ! 1)) = 5
           \<and> yseq_len (trace_y (fig_data fig ! 1)) = 5"
  using update_graph_smooths [OF _ assms(2-5)] assms(1) by auto

lemmas load_eval =
  load_frame_eq parse_row_def set_release_date_def sort_values_def finish_row_def
  sample_movie_def sample_eval movie.defs frame_row.defs

lemma two_movies_loaded:
  "map title (load_frame two_movies) = [Str ''B'', Str ''A'']"
  "map release_date (load_frame two_movies) = [Some \<lparr>year = 1977, month = 5, day = 25\<rparr>, None]"
  "map performance (load_frame two_movies) = [Num 3, Num 1]"
  "map sentiment_score (load_frame two_movies) = [Num 4, Num 2]"
  by (simp_all add: two_movies_def load_eval del: to_datetime_coerce.simps)

lemma five_movies_same_day_loaded:
  "map (\<lambda>r. to_numeric_date (release_date r)) (load_frame five_movies_same_day)
     = [233366400000000000, 233366400000000000, 327715200000000000,
        422668800000000000, 927072000000000000]"
  "map performance (load_frame five_movies_same_day) = [Num 9, Num 4, Num 8, Num 7, Num 5]"
  by (simp_all add: five_movies_same_day_def load_eval del: to_datetime_coerce.simps)

text \<open>
  C7 as stated fails: five rows with valid dates and scores, two of them of the same
  day, give no figure, since the fit refuses the repeated x.
\<close>

theorem five_rows_chart_counterexample:
  "length five_movies_same_day = 5 \<and> update_graph five_movies_same_day = Inl ValueError"
proof -
  have "smooth_line (map (\<lambda>r. to_numeric_date (release_date r)) (load_frame five_movies_same_day))
          (map performance (load_frame five_movies_same_day)) default_points = Inl ValueError"
    unfolding five_movies_same_day_loaded
    by (simp add: smooth_line_def boolean_index_def notna_def make_interp_spline_def)
  then have "update_graph five_movies_same_day = Inl ValueError" by (rule update_graph_error)
  then show ?thesis by (simp add: five_movies_same_day_def)
qed

text \<open>
  In the chart, a row whose date does not parse sorts last but has the least x: with
  three or more scored rows the x handed to the fit is not increasing, and the call
  raises.
\<close>

lemma null_date_breaks_chart:
  "update_graph [sample_movie ''A'' ''unknown'' 1 2, sample_movie ''B'' ''May 25, 1977'' 3 4,
                 sample_movie ''C'' ''May 21, 1980'' 5 6, sample_movie ''D'' ''May 25, 1983'' 7 8]
     = Inl ValueError"
proof -
  let ?csv = "[sample_movie ''A'' ''unknown'' 1 2, sample_movie ''B'' ''May 25, 1977'' 3 4,
               sample_movie ''C'' ''May 21, 1980'' 5 6, sample_movie ''D'' ''May 25, 1983'' 7 8]"
  have x: "map (\<lambda>r. to_numeric_date (release_date r)) (load_frame ?csv)
             = [233366400000000000, 327715200000000000, 422668800000000000, iNaT]"
    by (simp add: load_eval del: to_datetime_coerce.simps)
  have p: "map performance (load_frame ?csv) = [Num 3, Num 5, Num 7, Num 1]"
    by (simp add: load_eval del: to_datetime_coerce.simps)
  have "smooth_line (map (\<lambda>r. to_numeric_date (release_date r)) (load_frame ?csv))
          (map performance (load_frame ?csv)) default_points = Inl ValueError"
    unfolding x p
    by (simp add: smooth_line_def boolean_index_def notna_def make_interp_spline_def iNaT_def)
  then show ?thesis by (rule update_graph_error)
qed

theorem five_rows_chart_witness:
  "\<exists>fig. update_graph five_movies = Inr fig \<and> length (fig_data fig) = 4
           \<and> xseq_len (trace_x (fig_data fig ! 0)) = 300
           \<and> yseq_len (trace_y (fig_data fig ! 0)) = 300
           \<and> xseq_len (trace_x (fig_data fig ! 1)) = 5
           \<and> yseq_len (trace_y (fig_data fig ! 1)) = 5"
  using five_rows_chart [of five_movies]
  by (simp add: five_movies_def sample_movie_def sample_eval del: to_datetime_coerce.simps)


text \<open>
  A day written without its leading zero parses under the format but is not in the
  layout, and is formatted with the zero.
\<close>

lemma unpadded_day_is_padded:
  "\<not> layout_Mon_DD_YYYY ''May 5, 1977''
   \<and> dt_strftime (to_datetime_coerce (Str ''May 5, 1977'')) = Str ''May 05, 1977''"
  by (simp add: layout_Mon_DD_YYYY_def parse_unpadded strftime_def month_abbr_def
        digit_char_def char_of_def bit_0 del: to_datetime_coerce.simps)


section \<open>Properties of the detail panel\<close>

lemma display_customdata_row:
  assumes "hover_points h = p # ps" and "point_customdata p = Some (customdata_row r)"
  shows "display_hover_data (Some h) selected_csv =
     Inr \<lparr>heading = [Val (title r)],
          release_line = [Val (formatted_release_date r), Lit middot, Val (runtime r),
                          Lit ('' min'' @ middot), Val (tagline r)],
          image_container = [Img [Val (poster_url r)], Iframe [Val (trailer r)]],
          performance_value = [Val (performance r)],
          sentiment_value = [Val (sentiment_score r)],
          budget_line = [Lit ''Production Budget: '', Val (production_budget r)],
          box_office_line = [Lit ''Box Office: '', Val (box_office r)],
          profit_line = [Lit ''Profit: '', Val (profit r)],
          roi_line = [Lit ''ROI Percentage: '', Val (roi_percentage r)],
          comment_line = [Lit ''Comment: '', Val (comment r)]\<rparr>"
  using assms by (simp add: display_hover_data_def customdata_row_def)

text \<open>
  C6. A hover event on point \<open>i\<close> of either marker trace carries row \<open>i\<close> of the
  \<^verbatim>\<open>customdata\<close> the chart attached, and the panel built from it shows the
  attributes of row \<open>i\<close> of the loaded table: positions 0, 6 and 12 are its title, its
  performance and its sentiment, and the other positions read by the panel are the
  columns of the same names.
\<close>

theorem hover_shows_row:
  assumes "update_graph csv = Inr fig" and "k = 1 \<or> k = 3" and "i < length csv"
      and "hover_points h = p # ps"
      and "point_customdata p = map_option (\<lambda>cd. cd ! i) (trace_customdata (fig_data fig ! k))"
  shows "\<exists>pn. display_hover_data (Some h) selected_csv = Inr pn
          \<and> heading pn = [Val (title (load_frame csv ! i))]
          \<and> performance_value pn = [Val (performance (load_frame csv ! i))]
          \<and> sentiment_value pn = [Val (sentiment_score (load_frame csv ! i))]
          \<and> release_line pn = [Val (formatted_release_date (load_frame csv ! i)), Lit middot,
                               Val (runtime (load_frame csv ! i)), Lit ('' min'' @ middot),
                               Val (tagline (load_frame csv ! i))]
          \<and> image_container pn = [Img [Val (poster_url (load_frame csv ! i))],
                                  Iframe [Val (trailer (load_frame csv ! i))]]
          \<and> budget_line pn = [Lit ''Production Budget: '', Val (production_budget (load_frame csv ! i))]
          \<and> box_office_line pn = [Lit ''Box Office: '', Val (box_office (load_frame csv ! i))]
          \<and> profit_line pn = [Lit ''Profit: '', Val (profit (load_frame csv ! i))]
          \<and> roi_line pn = [Lit ''ROI Percentage: '', Val (roi_percentage (load_frame csv ! i))]
          \<and> comment_line pn = [Lit ''Comment: '', Val (comment (load_frame csv ! i))]"
proof -
  have i: "i < length (load_frame csv)" using assms(3) by (simp add: length_load_frame)
  have "trace_customdata (fig_data fig ! k) = Some (map customdata_row (load_frame csv))"
    using assms(2) update_graph_traces(5,9) [OF assms(1)] by auto
  with assms(5) i have "point_customdata p = Some (customdata_row (load_frame csv ! i))"
    by simp
  from display_customdata_row [OF assms(4) this, of selected_csv] show ?thesis by simp
qed

theorem hover_shows_row_witness:
  "\<exists>fig pn. update_graph two_movies = Inr fig
      \<and> display_hover_data
           (Some \<lparr>hover_points = [\<lparr>curveNumber = 1, pointNumber = 0,
                                  point_customdata = map_option (\<lambda>cd. cd ! 0)
                                     (trace_customdata (fig_data fig ! 1))\<rparr>]\<rparr>)
           ''csvs/star_wars_movies.csv'' = Inr pn
      \<and> heading pn = [Val (Str ''B'')]
      \<and> performance_value pn = [Val (Num 3)]
      \<and> sentiment_value pn = [Val (Num 4)]"
proof -
  obtain fig where fig: "update_graph two_movies = Inr fig"
    using update_graph_short [of two_movies] by (auto simp: two_movies_def)
  let ?p = "\<lparr>curveNumber = 1, pointNumber = 0,
             point_customdata = map_option (\<lambda>cd. cd ! 0) (trace_customdata (fig_data fig ! 1))\<rparr>"
  have len: "0 < length two_movies" by (simp add: two_movies_def)
  have l2: "0 < length (load_frame two_movies)" using len by (simp add: length_load_frame)
  have t: "title (load_frame two_movies ! 0) = Str ''B''"
    using two_movies_loaded(1) l2 by (metis nth_map nth_Cons_0)
  have pf: "performance (load_frame two_movies ! 0) = Num 3"
    using two_movies_loaded(3) l2 by (metis nth_map nth_Cons_0)
  have st: "sentiment_score (load_frame two_movies ! 0) = Num 4"
    using two_movies_loaded(4) l2 by (metis nth_map nth_Cons_0)
  from hover_shows_row [OF fig _ len, of 1 "\<lparr>hover_points = [?p]\<rparr>" ?p "[]" "''csvs/star_wars_movies.csv''"]
  obtain pn where
    "display_hover_data (Some \<lparr>hover_points = [?p]\<rparr>) ''csvs/star_wars_movies.csv'' = Inr pn"
    "heading pn = [Val (title (load_frame two_movies ! 0))]"
    "performance_value pn = [Val (performance (load_frame two_movies ! 0))]"
    "sentiment_value pn = [Val (sentiment_score (load_frame two_movies ! 0))]"
    by auto
  with fig t pf st show ?thesis by auto
qed

section \<open>Properties of start-up\<close>

lemma dict_set_nonempty: "dict_set d k v \<noteq> []"
  by (cases d) auto

lemma foldl_dict_set_nonempty:
  "d \<noteq> [] \<Longrightarrow> foldl (\<lambda>d c. dict_set d (f c) (g c)) d cs \<noteq> []"
  by (induction cs arbitrary: d) (auto simp: dict_set_nonempty)

lemma franchises_empty_iff: "franchises files = [] \<longleftrightarrow> franchise_csvs files = []"
proof (cases "franchise_csvs files")
  case Nil
  then show ?thesis by (simp add: franchises_def)
next
  case (Cons c cs)
  then show ?thesis
    by (simp add: franchises_def foldl_dict_set_nonempty dict_set_nonempty)
qed

lemma app_layout_empty: "app_layout [] = Inl IndexError"
  by (simp add: app_layout_def)

lemma app_layout_nonempty:
  assumes "fr \<noteq> []"
  shows "\<exists>dd. app_layout fr = Inr dd \<and> dd_value dd = snd (hd fr) \<and> length (dd_options dd) = length fr"
  using assms by (cases fr) (auto simp: app_layout_def)

text \<open>
  C4, as the code has it. With the directory missing, the listing raises
  \<^verbatim>\<open>FileNotFoundError\<close>. With no file matching \<^verbatim>\<open>*_movies.csv\<close> the dict of
  franchises is empty and taking the dropdown's default value raises
  \<^verbatim>\<open>IndexError\<close>. With at least one matching file the layout is built, the selection
  list is not empty and the default is the path of the first franchise.
\<close>

theorem startup_needs_a_franchise:
  "startup Missing = Inl FileNotFoundError
   \<and> (franchise_csvs files = [] \<longrightarrow>
        franchises files = [] \<and> startup (Listing files) = Inl IndexError)
   \<and> (franchise_csvs files \<noteq> [] \<longrightarrow>
        (\<exists>dd. startup (Listing files) = Inr dd \<and> dd_options dd \<noteq> []
              \<and> dd_value dd = snd (hd (franchises files))))"
proof -
  have a: "startup Missing = Inl FileNotFoundError" by (simp add: startup_def)
  have b: "franchises files = [] \<and> startup (Listing files) = Inl IndexError"
    if "franchise_csvs files = []"
  proof -
    from that have e: "franchises files = []" by (simp add: franchises_empty_iff)
    then show ?thesis by (simp add: startup_def app_layout_empty)
  qed
  have c: "\<exists>dd. startup (Listing files) = Inr dd \<and> dd_options dd \<noteq> []
              \<and> dd_value dd = snd (hd (franchises files))"
    if "franchise_csvs files \<noteq> []"
  proof -
    from that have ne: "franchises files \<noteq> []" by (simp add: franchises_empty_iff)
    from app_layout_nonempty [OF ne] obtain dd where
      "app_layout (franchises files) = Inr dd" "dd_value dd = snd (hd (franchises files))"
      "length (dd_options dd) = length (franchises files)" by blast
    with ne show ?thesis by (auto simp: startup_def)
  qed
  from a b c show ?thesis by blast
qed

text \<open>
  C4 as stated fails in both cases it names: start-up raises.
\<close>

theorem startup_counterexample:
  "startup Missing = Inl FileNotFoundError
   \<and> franchise_csvs [''notes.txt'', ''movies.csv''] = []
   \<and> startup (Listing [''notes.txt'', ''movies.csv'']) = Inl IndexError"
  by (simp add: startup_def franchises_def franchise_csvs_def endswith_def app_layout_def)

lemma star_wars_franchises:
  "franchises [''star_wars_movies.csv'', ''notes.txt'']
     = [(''star wars'', ''csvs/star_wars_movies.csv'')]"
  by (simp add: franchises_def franchise_csvs_def endswith_def replace.simps path_join_def
        csv_folder_def)

theorem startup_needs_a_franchise_witness:
  "franchise_csvs [''star_wars_movies.csv'', ''notes.txt''] \<noteq> []
   \<and> (\<exists>dd. startup (Listing [''star_wars_movies.csv'', ''notes.txt'']) = Inr dd
          \<and> dd_options dd \<noteq> [] \<and> dd_value dd = ''csvs/star_wars_movies.csv'')"
proof -
  have ne: "franchise_csvs [''star_wars_movies.csv'', ''notes.txt''] \<noteq> []"
    by (simp add: franchise_csvs_def endswith_def)
  with startup_needs_a_franchise [of "[''star_wars_movies.csv'', ''notes.txt'']"]
  show ?thesis by (simp add: star_wars_franchises)
qed

end
